theory Spec2Isabelle
  imports Complex_Main "HOL-Library.Multiset"
begin

section \<open>Cards (src/game/cards.py)\<close>

text \<open>
  A card is built once from a suit and a rank and never changed. The source keeps both as
  strings; the shoe only ever builds the four suits and the thirteen ranks below, so they
  are datatypes here (\<open>Two\<close> .. \<open>Ten\<close> are the ranks '2' .. '10', \<open>Jack\<close>, \<open>Queen\<close>,
  \<open>King\<close>, \<open>Ace\<close> are 'J', 'Q', 'K', 'A').
\<close>

datatype suit = Hearts | Diamonds | Clubs | Spades

datatype rank = Two | Three | Four | Five | Six | Seven | Eight | Nine | Ten
  | Jack | Queen | King | Ace

datatype card = Card (suit: suit) (rank: rank)

text \<open>\<open>Card.__init__\<close>: the blackjack value stored in \<open>self.value\<close>.\<close>

fun rank_value :: "rank \<Rightarrow> int" where
  "rank_value Ace = 11"
| "rank_value Jack = 10"
| "rank_value Queen = 10"
| "rank_value King = 10"
| "rank_value Two = 2"
| "rank_value Three = 3"
| "rank_value Four = 4"
| "rank_value Five = 5"
| "rank_value Six = 6"
| "rank_value Seven = 7"
| "rank_value Eight = 8"
| "rank_value Nine = 9"
| "rank_value Ten = 10"

definition card_value :: "card \<Rightarrow> int" where
  "card_value c = rank_value (rank c)"

text \<open>\<open>Card.get_count_value\<close>: the Hi-Lo tag of a card.\<close>

definition get_count_value :: "card \<Rightarrow> int" where
  "get_count_value c =
     (if rank c \<in> set [Two, Three, Four, Five, Six] then 1
      else if rank c \<in> set [Ten, Jack, Queen, King, Ace] then - 1
      else 0)"

section \<open>Hands (class Hand, src/game/players.py)\<close>

text \<open>
  \<open>Hand.get_value\<close> and \<open>Hand.is_soft\<close> read only \<open>self.cards\<close>, so they are functions
  of the card list. Both start with the same loop, which adds up the cards that are not
  aces and counts the aces.
\<close>

definition count_non_aces :: "card list \<Rightarrow> int \<times> nat" where
  "count_non_aces cs =
     fold (\<lambda>c (v, aces). if rank c = Ace then (v, aces + 1) else (v + card_value c, aces))
       cs (0, 0)"

text \<open>The second loop of \<open>get_value\<close>: \<open>for _ in range(aces)\<close>.\<close>

fun add_aces :: "nat \<Rightarrow> int \<Rightarrow> int" where
  "add_aces 0 v = v"
| "add_aces (Suc n) v = add_aces n (if v + 11 \<le> 21 then v + 11 else v + 1)"

definition get_value :: "card list \<Rightarrow> int" where
  "get_value cs = (case count_non_aces cs of (v, aces) \<Rightarrow> add_aces aces v)"

definition is_soft :: "card list \<Rightarrow> bool" where
  "is_soft cs = (case count_non_aces cs of (v, aces) \<Rightarrow> aces > 0 \<and> v + 11 \<le> 21)"

section \<open>Hand valuation of the session (class GameSession, src/game/game_session.py)\<close>

text \<open>
  The loop \<open>while value > 21 and aces: value -= 10; aces -= 1\<close>, shared by
  \<open>GameSession.hand_value\<close> and \<open>get_basic_strategy_move\<close>. It returns both variables.
\<close>

fun adjust_aces :: "int \<Rightarrow> nat \<Rightarrow> int \<times> nat" where
  "adjust_aces v aces =
     (if v > 21 \<and> aces \<noteq> 0 then adjust_aces (v - 10) (aces - 1) else (v, aces))"

declare adjust_aces.simps [simp del]

definition count_aces :: "card list \<Rightarrow> nat" where
  "count_aces h = length (filter (\<lambda>c. rank c = Ace) h)"

definition hand_value :: "card list \<Rightarrow> int" where
  "hand_value h = fst (adjust_aces (sum_list (map card_value h)) (count_aces h))"

definition is_soft_hand :: "card list \<Rightarrow> bool" where
  "is_soft_hand h =
     (let v = sum_list (map card_value h);
          aces = count_aces h;
          alt_value = v - (int aces * 10)
      in aces > 0 \<and> alt_value + 10 \<le> 21)"

definition check_blackjack :: "card list \<Rightarrow> bool" where
  "check_blackjack h = (length h = 2 \<and> hand_value h = 21)"

section \<open>Python values and errors\<close>

text \<open>
  The rule and settings dictionaries come from JSON, so a key may hold a value of any of
  these kinds. Floats are read as exact rationals: the decimal constants of the source
  (0.5, 0.08, 1.4, ...) stand for the fractions they denote, and binary rounding is not
  modelled.
\<close>

datatype pyval = IntV int | NumV rat | BoolV bool | StrV string | NoneV

datatype error = ValueError | TypeError | KeyError

text \<open>\<open>d.get(key, default)\<close>.\<close>

definition dict_get :: "(string \<rightharpoonup> pyval) \<Rightarrow> string \<Rightarrow> pyval \<Rightarrow> pyval" where
  "dict_get d k dflt = (case d k of None \<Rightarrow> dflt | Some v \<Rightarrow> v)"

text \<open>The number a value compares as: \<open>True\<close> is 1 and \<open>False\<close> is 0 in Python.\<close>

fun py_num :: "pyval \<Rightarrow> rat option" where
  "py_num (IntV i) = Some (of_int i)"
| "py_num (NumV q) = Some q"
| "py_num (BoolV b) = Some (if b then 1 else 0)"
| "py_num (StrV s) = None"
| "py_num NoneV = None"

text \<open>\<open>v == n\<close> for a number \<open>n\<close>: false for strings and \<open>None\<close>.\<close>

definition py_eq_num :: "pyval \<Rightarrow> rat \<Rightarrow> bool" where
  "py_eq_num v n = (py_num v = Some n)"

text \<open>\<open>v > n\<close> and \<open>v < n\<close> for a number \<open>n\<close>: a \<open>TypeError\<close> for strings and \<open>None\<close>.\<close>

definition py_gt_num :: "pyval \<Rightarrow> rat \<Rightarrow> error + bool" where
  "py_gt_num v n = (case py_num v of None \<Rightarrow> Inl TypeError | Some q \<Rightarrow> Inr (q > n))"

definition py_lt_num :: "pyval \<Rightarrow> rat \<Rightarrow> error + bool" where
  "py_lt_num v n = (case py_num v of None \<Rightarrow> Inl TypeError | Some q \<Rightarrow> Inr (q < n))"

text \<open>Truth value of a value, as \<open>if v\<close> and \<open>not v\<close> take it.\<close>

fun truthy :: "pyval \<Rightarrow> bool" where
  "truthy (IntV i) = (i \<noteq> 0)"
| "truthy (NumV q) = (q \<noteq> 0)"
| "truthy (BoolV b) = b"
| "truthy (StrV s) = (s \<noteq> [])"
| "truthy NoneV = False"

text \<open>Sequencing of steps that may raise.\<close>

definition and_then :: "error + 'a \<Rightarrow> ('a \<Rightarrow> error + 'b) \<Rightarrow> error + 'b" where
  "and_then r f = (case r of Inl e \<Rightarrow> Inl e | Inr x \<Rightarrow> f x)"

text \<open>\<open>int(x)\<close> on a float: truncation towards zero.\<close>

definition py_int :: "rat \<Rightarrow> int" where
  "py_int x = (if x \<ge> 0 then \<lfloor>x\<rfloor> else \<lceil>x\<rceil>)"

section \<open>The shoe (class Deck, src/game/cards.py)\<close>

record deck =
  cards :: "card list"
  number_of_decks :: int
  running_count :: int
  initial_cards :: nat
  cut_card_position :: int

definition suits :: "suit list" where
  "suits = [Hearts, Diamonds, Clubs, Spades]"

definition ranks :: "rank list" where
  "ranks = [Two, Three, Four, Five, Six, Seven, Eight, Nine, Ten, Jack, Queen, King, Ace]"

text \<open>
  \<open>Deck.build_deck\<close>: \<open>for _ in range(self.number_of_decks)\<close> appends the 52 cards, suit
  by suit and rank by rank, to \<open>self.cards\<close>.
\<close>

fun build_loop :: "nat \<Rightarrow> card list \<Rightarrow> card list" where
  "build_loop 0 cs = cs"
| "build_loop (Suc n) cs = build_loop n (cs @ [Card s r. s \<leftarrow> suits, r \<leftarrow> ranks])"

definition build_deck :: "deck \<Rightarrow> deck" where
  "build_deck d = d\<lparr>cards := build_loop (nat (number_of_decks d)) (cards d)\<rparr>"

text \<open>
  \<open>Deck.__init__\<close>. \<open>GAME_SETTINGS['MIN_DECKS']\<close> and \<open>GAME_SETTINGS['MAX_DECKS']\<close> are the
  parameters \<open>min_decks\<close> and \<open>max_decks\<close> (1 and 8 in \<open>DEFAULT_SETTINGS\<close>).
\<close>

definition Deck_init :: "int \<Rightarrow> int \<Rightarrow> int option \<Rightarrow> rat \<Rightarrow> error + deck" where
  "Deck_init min_decks max_decks number_of_decks_arg cut_card_percent =
     (let n = (case number_of_decks_arg of None \<Rightarrow> 1 | Some k \<Rightarrow> k) in
      if n < min_decks then Inl ValueError
      else if n > max_decks then Inl ValueError
      else
        (let d = build_deck \<lparr>cards = [], number_of_decks = n, running_count = 0,
                             initial_cards = 0, cut_card_position = 0\<rparr>;
             d = d\<lparr>initial_cards := length (cards d)\<rparr>
         in Inr (d\<lparr>cut_card_position :=
                      py_int (of_nat (initial_cards d) * (1 - cut_card_percent))\<rparr>)))"

text \<open>
  \<open>random.shuffle(self.cards)\<close> is the standard library's exchange pass: for \<open>i\<close> from
  \<open>len - 1\<close> down to 1 it draws \<open>j\<close> below \<open>i + 1\<close> and swaps the entries \<open>i\<close> and \<open>j\<close>.
  The random draws are the parameter \<open>rng\<close> (the draw made at index \<open>i\<close>, reduced below
  \<open>i + 1\<close>).
\<close>

fun shuffle_from :: "(nat \<Rightarrow> nat) \<Rightarrow> nat \<Rightarrow> 'a list \<Rightarrow> 'a list" where
  "shuffle_from rng 0 xs = xs"
| "shuffle_from rng (Suc i) xs =
     (let j = rng (Suc i) mod (Suc i + 1)
      in shuffle_from rng i (xs[Suc i := xs ! j, j := xs ! Suc i]))"

definition random_shuffle :: "(nat \<Rightarrow> nat) \<Rightarrow> 'a list \<Rightarrow> 'a list" where
  "random_shuffle rng xs = shuffle_from rng (length xs - 1) xs"

text \<open>\<open>Deck.shuffle\<close>.\<close>

definition shuffle :: "(nat \<Rightarrow> nat) \<Rightarrow> deck \<Rightarrow> deck" where
  "shuffle rng d = d\<lparr>cards := random_shuffle rng (cards d), running_count := 0\<rparr>"

text \<open>
  \<open>Deck.deal_card\<close>. The result is \<open>Inr (Some c)\<close> for a returned card, \<open>Inr None\<close> for
  the returned value \<open>None\<close>, and \<open>Inl e\<close> for a raised exception.
\<close>

definition deal_card :: "bool \<Rightarrow> deck \<Rightarrow> (error + card option) \<times> deck" where
  "deal_card face_up d =
     (case cards d of
        [] \<Rightarrow> (Inr None, d)
      | c # rest \<Rightarrow>
          (Inr (Some c),
           d\<lparr>cards := rest,
             running_count :=
               (if face_up then running_count d + get_count_value c else running_count d)\<rparr>))"

definition cards_left :: "deck \<Rightarrow> nat" where
  "cards_left d = length (cards d)"

definition is_cut_card :: "deck \<Rightarrow> bool" where
  "is_cut_card d = (int (cards_left d) \<le> cut_card_position d)"

text \<open>Dealing \<open>n\<close> cards in a row, face up, keeping only the shoe.\<close>

fun deal_many :: "nat \<Rightarrow> deck \<Rightarrow> deck" where
  "deal_many 0 d = d"
| "deal_many (Suc n) d = deal_many n (snd (deal_card True d))"

section \<open>The session (class GameSession, src/game/game_session.py)\<close>

record session_stats =
  hands_played :: nat
  hands_won :: nat
  hands_lost :: nat
  pushes :: nat
  blackjacks :: nat
  busts :: nat
  dealer_busts :: nat

text \<open>
  The fields of the session that a round reads and writes. \<open>bankroll\<close> is
  \<open>self.profile.bankroll\<close>; \<open>blackjack_payout\<close> holds whatever value the rules give.
\<close>

record session =
  bankroll :: rat
  min_bet :: int
  max_bet :: int
  blackjack_payout :: pyval
  shoe :: deck
  stats :: session_stats

text \<open>
  \<open>GAME_SETTINGS\<close> of src/game/settings.py when no settings file overrides
  \<open>DEFAULT_SETTINGS\<close>.
\<close>

definition DEFAULT_GAME_SETTINGS :: "string \<rightharpoonup> pyval" where
  "DEFAULT_GAME_SETTINGS =
     [''MAX_DECKS'' \<mapsto> IntV 8,
      ''MIN_DECKS'' \<mapsto> IntV 1,
      ''DEFAULT_CUT_CARD_PERCENT'' \<mapsto> NumV (3 / 4),
      ''SHOW_HOUSE_EDGE'' \<mapsto> BoolV True,
      ''SHOW_HINTS'' \<mapsto> BoolV True]"

text \<open>
  \<open>GameSession.__init__\<close>, the value of \<open>self.number_of_decks\<close>, which is handed to
  \<open>Deck(number_of_decks=...)\<close>:
  \<open>table.rules.get("number_of_decks", GAME_SETTINGS.get('MAX_DECKS', 6))\<close>.
\<close>

definition session_number_of_decks ::
  "(string \<rightharpoonup> pyval) \<Rightarrow> (string \<rightharpoonup> pyval) \<Rightarrow> pyval" where
  "session_number_of_decks game_settings rules =
     dict_get rules ''number_of_decks'' (dict_get game_settings ''MAX_DECKS'' (IntV 6))"

text \<open>
  \<open>GameSession.get_bet\<close>. The loop reads one line per turn; the lines are the list
  argument: \<open>Quit\<close> is 'q', \<open>Number n\<close> a line that \<open>int()\<close> accepts, \<open>Garbage\<close> one it
  rejects. With no line left the loop is still waiting, and there is no result.
\<close>

datatype bet_input = Quit | Number int | Garbage

fun get_bet :: "session \<Rightarrow> bet_input list \<Rightarrow> (int option \<times> session) option" where
  "get_bet s [] = None"
| "get_bet s (Quit # rest) = Some (None, s)"
| "get_bet s (Number bet # rest) =
     (if min_bet s \<le> bet \<and> bet \<le> max_bet s \<and> of_int bet \<le> bankroll s
      then Some (Some bet, s\<lparr>bankroll := bankroll s - of_int bet\<rparr>)
      else get_bet s rest)"
| "get_bet s (Garbage # rest) = get_bet s rest"

text \<open>\<open>GameSession.flip_card\<close>: the revealed card is counted.\<close>

definition flip_card :: "session \<Rightarrow> card \<Rightarrow> session" where
  "flip_card s c = s\<lparr>shoe := (shoe s)\<lparr>running_count := running_count (shoe s) + get_count_value c\<rparr>\<rparr>"

text \<open>
  \<open>GameSession.play\<close>, from the check for blackjacks to the end of the blackjack
  branches, for the hands \<open>[p1, p2]\<close> and \<open>[d1, d2]\<close> just dealt and the bet already
  taken from the bankroll. \<open>RoundOver\<close> is the \<open>continue\<close> (or \<open>return\<close>) that ends the
  round; \<open>ToPlayerTurn\<close> is falling through to the player's turn.
\<close>

datatype round_phase = RoundOver | ToPlayerTurn

definition blackjack_check ::
  "session \<Rightarrow> int \<Rightarrow> card \<Rightarrow> card \<Rightarrow> card \<Rightarrow> card \<Rightarrow> round_phase \<times> session" where
  "blackjack_check s bet p1 p2 d1 d2 =
     (let player_hand = [p1, p2];
          dealer_hand = [d1, d2];
          player_blackjack = check_blackjack player_hand;
          dealer_upcard = d1
      in
      if card_value dealer_upcard \<in> set [10, 11] \<and> check_blackjack dealer_hand then
        (let s = flip_card s d2;
             s = s\<lparr>stats := (stats s)\<lparr>hands_played := hands_played (stats s) + 1\<rparr>\<rparr>
         in if player_blackjack
            then (RoundOver,
                  s\<lparr>bankroll := bankroll s + of_int bet,
                    stats := (stats s)\<lparr>pushes := pushes (stats s) + 1\<rparr>\<rparr>)
            else (RoundOver,
                  s\<lparr>stats := (stats s)\<lparr>hands_lost := hands_lost (stats s) + 1\<rparr>\<rparr>))
      else if player_blackjack then
        (let s = flip_card s d2;
             payout = (if blackjack_payout s = StrV ''3:2''
                       then of_int bet * (3 / 2)
                       else of_int bet * (6 / 5));
             s = s\<lparr>bankroll := bankroll s + (of_int bet + payout)\<rparr>
         in (RoundOver,
             s\<lparr>stats := (stats s)\<lparr>hands_played := hands_played (stats s) + 1,
                                  hands_won := hands_won (stats s) + 1,
                                  blackjacks := blackjacks (stats s) + 1\<rparr>\<rparr>))
      else (ToPlayerTurn, s))"

text \<open>\<open>GameSession.compare_hands\<close> (the printing left out).\<close>

definition compare_hands :: "session \<Rightarrow> card list \<Rightarrow> card list \<Rightarrow> int \<Rightarrow> session" where
  "compare_hands s player_hand dealer_hand bet =
     (let player_value = hand_value player_hand;
          dealer_value = hand_value dealer_hand;
          s = s\<lparr>stats := (stats s)\<lparr>hands_played := hands_played (stats s) + 1\<rparr>\<rparr>
      in
      if player_value > 21 then
        s\<lparr>stats := (stats s)\<lparr>hands_lost := hands_lost (stats s) + 1,
                             busts := busts (stats s) + 1\<rparr>\<rparr>
      else if dealer_value > 21 then
        s\<lparr>bankroll := bankroll s + of_int (bet * 2),
          stats := (stats s)\<lparr>hands_won := hands_won (stats s) + 1\<rparr>\<rparr>
      else if player_value > dealer_value then
        s\<lparr>bankroll := bankroll s + of_int (bet * 2),
          stats := (stats s)\<lparr>hands_won := hands_won (stats s) + 1\<rparr>\<rparr>
      else if dealer_value > player_value then
        s\<lparr>stats := (stats s)\<lparr>hands_lost := hands_lost (stats s) + 1\<rparr>\<rparr>
      else
        s\<lparr>bankroll := bankroll s + of_int bet,
          stats := (stats s)\<lparr>pushes := pushes (stats s) + 1\<rparr>\<rparr>)"

section \<open>The house edge (class Table, src/game/game_session.py)\<close>

text \<open>
  \<open>Table.calculate_house_edge\<close>, one definition per commented block of the source, each
  taking the edge so far. The two blocks that order a rule value against a number raise
  \<open>TypeError\<close> when the value is a string or \<open>None\<close>.
\<close>

definition edge_decks :: "(string \<rightharpoonup> pyval) \<Rightarrow> pyval" where
  "edge_decks rules = dict_get rules ''number_of_decks'' (IntV 6)"

definition adjust_for_decks :: "(string \<rightharpoonup> pyval) \<Rightarrow> rat \<Rightarrow> error + rat" where
  "adjust_for_decks rules house_edge =
     (let decks = edge_decks rules in
      if py_eq_num decks 1 then Inr (house_edge - 25 / 100)
      else if py_eq_num decks 2 then Inr (house_edge - 2 / 10)
      else and_then (py_gt_num decks 6) (\<lambda>more.
        if more
        then (case py_num decks of
                None \<Rightarrow> Inl TypeError
              | Some n \<Rightarrow> Inr (house_edge + (2 / 100) * (n - 6)))
        else Inr house_edge))"

definition adjust_for_payout :: "(string \<rightharpoonup> pyval) \<Rightarrow> rat \<Rightarrow> rat" where
  "adjust_for_payout rules house_edge =
     (let blackjack_payout = dict_get rules ''blackjack_payout'' (StrV ''3:2'') in
      if blackjack_payout = StrV ''6:5'' then house_edge + 14 / 10
      else if blackjack_payout = StrV ''1:1'' then house_edge + 23 / 10
      else house_edge)"

definition adjust_for_dealer :: "(string \<rightharpoonup> pyval) \<Rightarrow> rat \<Rightarrow> rat" where
  "adjust_for_dealer rules house_edge =
     (if truthy (dict_get rules ''dealer_hits_soft_17'' (BoolV False))
      then house_edge + 2 / 10 else house_edge)"

definition adjust_for_player_options :: "(string \<rightharpoonup> pyval) \<Rightarrow> rat \<Rightarrow> rat" where
  "adjust_for_player_options rules house_edge =
     (let house_edge = (if \<not> truthy (dict_get rules ''allow_double_down'' (BoolV True))
                        then house_edge + 2 / 10 else house_edge);
          house_edge = (if \<not> truthy (dict_get rules ''allow_double_after_split'' (BoolV True))
                        then house_edge + 14 / 100 else house_edge);
          house_edge = (if \<not> truthy (dict_get rules ''allow_split'' (BoolV True))
                        then house_edge + 4 / 10 else house_edge);
          house_edge = (if \<not> truthy (dict_get rules ''resplit_aces'' (BoolV False))
                        then house_edge + 8 / 100 else house_edge);
          house_edge = (if truthy (dict_get rules ''allow_surrender'' (BoolV False))
                        then house_edge - 8 / 100 else house_edge)
      in house_edge)"

definition adjust_for_penetration :: "(string \<rightharpoonup> pyval) \<Rightarrow> rat \<Rightarrow> error + rat" where
  "adjust_for_penetration rules house_edge =
     (let penetration = dict_get rules ''deck_penetration'' (NumV (75 / 100)) in
      and_then (py_gt_num penetration (8 / 10)) (\<lambda>deep.
        if deep then Inr (house_edge - 1 / 10)
        else and_then (py_lt_num penetration (5 / 10)) (\<lambda>shallow.
          if shallow then Inr (house_edge + 1 / 10) else Inr house_edge)))"

definition adjust_for_other_rules :: "(string \<rightharpoonup> pyval) \<Rightarrow> rat \<Rightarrow> rat" where
  "adjust_for_other_rules rules house_edge =
     (let house_edge = (if \<not> truthy (dict_get rules ''dealer_peek'' (BoolV True))
                        then house_edge + 1 / 10 else house_edge);
          house_edge = (if dict_get rules ''insurance_pays'' (StrV ''2:1'') \<noteq> StrV ''2:1''
                        then house_edge + 1 / 10 else house_edge)
      in house_edge)"

definition calculate_house_edge :: "(string \<rightharpoonup> pyval) \<Rightarrow> error + rat" where
  "calculate_house_edge rules =
     and_then (adjust_for_decks rules (5 / 10)) (\<lambda>house_edge.
       let house_edge = adjust_for_payout rules house_edge;
           house_edge = adjust_for_dealer rules house_edge;
           house_edge = adjust_for_player_options rules house_edge
       in and_then (adjust_for_penetration rules house_edge) (\<lambda>house_edge.
            let house_edge = adjust_for_other_rules rules house_edge
            in Inr (max (1 / 10) (min house_edge 5))))"

section \<open>The basic strategy advisor (get_basic_strategy_move, src/game/players.py)\<close>

text \<open>
  The block "Handle pairs first". It returns in every branch a rank can reach; \<open>None\<close>
  stands for leaving the chain without a \<open>return\<close>.
\<close>

definition pairs_strategy :: "rank \<Rightarrow> int \<Rightarrow> nat \<Rightarrow> string option" where
  "pairs_strategy pair_rank dealer_value len =
     (if pair_rank = Ace \<or> pair_rank = Eight then Some ''split''
      else if pair_rank = Ten \<or> pair_rank = Jack \<or> pair_rank = Queen \<or> pair_rank = King
        then Some ''stand''
      else if pair_rank = Nine then
        (if dealer_value \<in> set [2, 3, 4, 5, 6, 8, 9] then Some ''split'' else Some ''stand'')
      else if pair_rank = Seven then
        (if dealer_value \<in> set [2, 3, 4, 5, 6, 7] then Some ''split'' else Some ''hit'')
      else if pair_rank = Six then
        (if dealer_value \<in> set [2, 3, 4, 5, 6] then Some ''split'' else Some ''hit'')
      else if pair_rank = Five then
        (if dealer_value \<in> set [2, 3, 4, 5, 6, 7, 8, 9] \<and> len = 2
         then Some ''double'' else Some ''hit'')
      else if pair_rank = Four then
        (if dealer_value \<in> set [5, 6] then Some ''split'' else Some ''hit'')
      else if pair_rank = Three \<or> pair_rank = Two then
        (if dealer_value \<in> set [2, 3, 4, 5, 6, 7] then Some ''split'' else Some ''hit'')
      else None)"

text \<open>The block "Handle soft hands".\<close>

definition soft_strategy :: "int \<Rightarrow> int \<Rightarrow> nat \<Rightarrow> string" where
  "soft_strategy hv dealer_value len =
     (if hv \<ge> 19 then ''stand''
      else if hv = 18 then
        (if dealer_value \<in> set [2, 3, 4, 5, 6, 7, 8] then ''stand'' else ''hit'')
      else if hv = 17 then
        (if dealer_value \<in> set [3, 4, 5, 6] \<and> len = 2 then ''double'' else ''hit'')
      else if hv = 16 \<or> hv = 15 then
        (if dealer_value \<in> set [4, 5, 6] \<and> len = 2 then ''double'' else ''hit'')
      else if hv = 14 \<or> hv = 13 then
        (if dealer_value \<in> set [5, 6] \<and> len = 2 then ''double'' else ''hit'')
      else ''hit'')"

text \<open>The block "Handle hard hands".\<close>

definition hard_strategy :: "int \<Rightarrow> int \<Rightarrow> nat \<Rightarrow> string" where
  "hard_strategy hv dealer_value len =
     (if hv \<ge> 17 then ''stand''
      else if hv \<ge> 13 \<and> hv \<le> 16 then
        (if dealer_value \<in> set [2, 3, 4, 5, 6] then ''stand'' else ''hit'')
      else if hv = 12 then
        (if dealer_value \<in> set [4, 5, 6] then ''stand'' else ''hit'')
      else if hv = 11 then
        (if len = 2 then ''double'' else ''hit'')
      else if hv = 10 then
        (if dealer_value \<in> set [2, 3, 4, 5, 6, 7, 8, 9] \<and> len = 2 then ''double'' else ''hit'')
      else if hv = 9 then
        (if dealer_value \<in> set [3, 4, 5, 6] \<and> len = 2 then ''double'' else ''hit'')
      else ''hit'')"

text \<open>
  \<open>get_basic_strategy_move\<close>. \<open>hv\<close> and \<open>aces\<close> are \<open>hand_value\<close> and \<open>aces\<close> after the
  adjusting loop, \<open>soft\<close> and \<open>pair\<close> are \<open>is_soft\<close> and \<open>is_pair\<close>. The function reads its
  arguments and writes nothing.
\<close>

definition get_basic_strategy_move :: "card list \<Rightarrow> card \<Rightarrow> string" where
  "get_basic_strategy_move player_hand dealer_upcard =
     (case adjust_aces (sum_list (map card_value player_hand)) (count_aces player_hand) of
        (hv, aces) \<Rightarrow>
          (let soft = (aces > 0 \<and> hv \<le> 21);
               pair = (length player_hand = 2 \<and> rank (player_hand ! 0) = rank (player_hand ! 1));
               dealer_value = card_value dealer_upcard;
               from_pairs = (if pair
                             then pairs_strategy (rank (player_hand ! 0)) dealer_value
                                    (length player_hand)
                             else None)
           in case from_pairs of
                Some move \<Rightarrow> move
              | None \<Rightarrow>
                  if soft then soft_strategy hv dealer_value (length player_hand)
                  else hard_strategy hv dealer_value (length player_hand)))"

text \<open>\<open>Hand.is_pair\<close> of src/game/players.py, on the card list of the hand.\<close>

definition is_pair :: "card list \<Rightarrow> bool" where
  "is_pair cs = (length cs = 2 \<and> rank (cs ! 0) = rank (cs ! 1))"

section \<open>Example states\<close>

text \<open>
  The shoe \<open>Deck(1)\<close> builds under the default settings, the same shoe after the shuffle of
  \<open>GameSession.__init__\<close> and 39 cards dealt (13 cards left, the cut card reached), and
  after all 52 cards are dealt. The shuffle shown draws 0 every time.
\<close>

definition one_deck_shoe :: deck where
  "one_deck_shoe = \<lparr>cards = build_loop 1 [], number_of_decks = 1, running_count = 0,
                     initial_cards = 52, cut_card_position = 13\<rparr>"

definition depleted_shoe :: deck where
  "depleted_shoe = deal_many 39 (shuffle (\<lambda>i. 0) one_deck_shoe)"

definition empty_shoe :: deck where
  "empty_shoe = deal_many 52 (shuffle (\<lambda>i. 0) one_deck_shoe)"

text \<open>
  A session at a table with bets from 5 to 500 and a bankroll of 100, and the same session
  at a table whose rules give "1:1" as blackjack payout, after a bet of 10 has been taken.
\<close>

definition session_100 :: session where
  "session_100 =
     \<lparr>bankroll = 100, min_bet = 5, max_bet = 500, blackjack_payout = StrV ''3:2'',
      shoe = one_deck_shoe,
      stats = \<lparr>hands_played = 0, hands_won = 0, hands_lost = 0, pushes = 0,
               blackjacks = 0, busts = 0, dealer_busts = 0\<rparr>\<rparr>"

definition session_even_money :: session where
  "session_even_money = session_100\<lparr>bankroll := 90, blackjack_payout := StrV ''1:1''\<rparr>"

section \<open>Facts about the card count\<close>

lemma count_of_one_deck:
  "sum_list (map get_count_value [Card s r. s \<leftarrow> suits, r \<leftarrow> ranks]) = 0"
  by (simp add: suits_def ranks_def get_count_value_def)

lemma count_of_build_loop:
  "sum_list (map get_count_value (build_loop n cs)) = sum_list (map get_count_value cs)"
  by (induction n arbitrary: cs) (simp_all add: count_of_one_deck)

lemma length_one_deck: "length [Card s r. s \<leftarrow> suits, r \<leftarrow> ranks] = 52"
  by (simp add: suits_def ranks_def)

lemma length_build_loop: "length (build_loop n cs) = length cs + 52 * n"
  by (induction n arbitrary: cs) (simp_all add: length_one_deck)

text \<open>
  C10. The Hi-Lo tag of a card is +1 exactly for the ranks 2 to 6, -1 exactly for 10, J, Q,
  K and A, and 0 exactly for 7, 8 and 9. The tags of the 52 cards of one deck add up to 0,
  and so do the tags of the cards \<open>build_deck\<close> puts into an empty shoe, for any number of
  decks, and of every shoe \<open>Deck.__init__\<close> returns.
\<close>

theorem hi_lo_count_balanced:
  "(get_count_value c = 1 \<longleftrightarrow> rank c \<in> {Two, Three, Four, Five, Six})
   \<and> (get_count_value c = - 1 \<longleftrightarrow> rank c \<in> {Ten, Jack, Queen, King, Ace})
   \<and> (get_count_value c = 0 \<longleftrightarrow> rank c \<in> {Seven, Eight, Nine})
   \<and> sum_list (map get_count_value [Card s r. s \<leftarrow> suits, r \<leftarrow> ranks]) = 0
   \<and> sum_list (map get_count_value (build_loop n [])) = 0
   \<and> (Deck_init min_decks max_decks k pct = Inr d
        \<longrightarrow> sum_list (map get_count_value (cards d)) = 0 \<and> running_count d = 0)"
proof -
  have tags: "(get_count_value c = 1 \<longleftrightarrow> rank c \<in> {Two, Three, Four, Five, Six})
     \<and> (get_count_value c = - 1 \<longleftrightarrow> rank c \<in> {Ten, Jack, Queen, King, Ace})
     \<and> (get_count_value c = 0 \<longleftrightarrow> rank c \<in> {Seven, Eight, Nine})"
    by (cases "rank c") (simp_all add: get_count_value_def)
  have loop: "sum_list (map get_count_value (build_loop n [])) = 0" for n
    by (simp add: count_of_build_loop)
  have fresh: "sum_list (map get_count_value (cards d)) = 0 \<and> running_count d = 0"
    if "Deck_init min_decks max_decks k pct = Inr d"
    using that
    by (auto simp: Deck_init_def build_deck_def Let_def count_of_build_loop
             split: if_splits)
  from tags loop fresh show ?thesis
    by (simp add: count_of_one_deck)
qed

theorem hi_lo_count_balanced_witness:
  "get_count_value (Card Hearts Five) = 1
   \<and> get_count_value (Card Spades King) = - 1
   \<and> get_count_value (Card Clubs Eight) = 0
   \<and> sum_list (map get_count_value (build_loop 2 [])) = 0
   \<and> (\<exists>d. Deck_init 1 8 (Some 1) (3 / 4) = Inr d
          \<and> sum_list (map get_count_value (cards d)) = 0 \<and> running_count d = 0)"
proof -
  have ok: "Deck_init 1 8 (Some 1) (3 / 4)
      = Inr \<lparr>cards = build_loop 1 [], number_of_decks = 1, running_count = 0,
             initial_cards = 52, cut_card_position = 13\<rparr>"
    by (simp add: Deck_init_def build_deck_def Let_def py_int_def suits_def ranks_def)
  show ?thesis
    using hi_lo_count_balanced [of "Card Hearts Five" 2 1 8 "Some 1" "3 / 4"
        "\<lparr>cards = build_loop 1 [], number_of_decks = 1, running_count = 0,
          initial_cards = 52, cut_card_position = 13\<rparr>"]
      hi_lo_count_balanced [of "Card Spades King"]
      hi_lo_count_balanced [of "Card Clubs Eight"] ok
    by simp
qed

section \<open>Facts about hand valuation\<close>

lemma count_non_aces_fold:
  "fold (\<lambda>c (v, aces). if rank c = Ace then (v, aces + 1) else (v + card_value c, aces)) cs (v0, a0)
   = (v0 + sum_list (map card_value (filter (\<lambda>c. rank c \<noteq> Ace) cs)), a0 + count_aces cs)"
  by (induction cs arbitrary: v0 a0) (simp_all add: count_aces_def)

lemma count_non_aces_eq:
  "count_non_aces cs = (sum_list (map card_value (filter (\<lambda>c. rank c \<noteq> Ace) cs)), count_aces cs)"
  by (simp add: count_non_aces_def count_non_aces_fold)

lemma sum_values_split:
  "sum_list (map card_value cs)
   = sum_list (map card_value (filter (\<lambda>c. rank c \<noteq> Ace) cs)) + 11 * int (count_aces cs)"
  by (induction cs) (simp_all add: count_aces_def card_value_def)

lemma adjust_aces_soft:
  "(snd (adjust_aces v a) > 0 \<and> fst (adjust_aces v a) \<le> 21) \<longleftrightarrow> (a > 0 \<and> v - 10 * (int a - 1) \<le> 21)"
proof (induction v a rule: adjust_aces.induct)
  case (1 v aces)
  show ?case
  proof (cases "v > 21 \<and> aces \<noteq> 0")
    case True
    then have step: "adjust_aces v aces = adjust_aces (v - 10) (aces - 1)"
      by (subst adjust_aces.simps) simp
    from True have "int (aces - 1) = int aces - 1" by simp
    with 1 [OF True] True step show ?thesis by auto
  next
    case False
    have "adjust_aces v aces = (v, aces)"
      by (subst adjust_aces.simps) (simp only: False if_False)
    with False show ?thesis by auto
  qed
qed

lemma advisor_soft_is_soft_hand:
  "(snd (adjust_aces (sum_list (map card_value h)) (count_aces h)) > 0
     \<and> fst (adjust_aces (sum_list (map card_value h)) (count_aces h)) \<le> 21) \<longleftrightarrow> is_soft_hand h"
  unfolding adjust_aces_soft by (auto simp: is_soft_hand_def Let_def algebra_simps)

lemma is_soft_hand_meets_spec:
  "is_soft_hand h \<longleftrightarrow>
     count_aces h > 0
     \<and> sum_list (map (\<lambda>c. if rank c = Ace then 1 else card_value c) h) + 10 \<le> 21"
proof -
  have "sum_list (map (\<lambda>c. if rank c = Ace then 1 else card_value c) h)
        = sum_list (map card_value h) - 10 * int (count_aces h)"
    by (induction h) (simp_all add: count_aces_def card_value_def)
  then show ?thesis by (simp add: is_soft_hand_def Let_def mult.commute)
qed

lemma adjust_aces_zero: "adjust_aces v 0 = (v, 0)"
  by (subst adjust_aces.simps) simp

lemma adjust_aces_one: "adjust_aces v (Suc 0) = (if v > 21 then (v - 10, 0) else (v, Suc 0))"
  by (subst adjust_aces.simps) (simp add: adjust_aces_zero)

lemma get_value_one_ace:
  assumes "count_aces cs \<le> 1"
  shows "get_value cs = hand_value cs"
proof -
  define n where "n = sum_list (map card_value (filter (\<lambda>c. rank c \<noteq> Ace) cs))"
  have total: "sum_list (map card_value cs) = n + 11 * int (count_aces cs)"
    unfolding n_def by (rule sum_values_split)
  have parts: "count_non_aces cs = (n, count_aces cs)"
    unfolding n_def by (rule count_non_aces_eq)
  consider "count_aces cs = 0" | "count_aces cs = Suc 0" using assms by linarith
  then show ?thesis
  proof cases
    case 1
    then show ?thesis
      by (simp add: get_value_def parts hand_value_def total adjust_aces_zero)
  next
    case 2
    then show ?thesis
      by (simp add: get_value_def parts hand_value_def total adjust_aces_one)
  qed
qed

text \<open>
  C1. \<open>Hand.get_value\<close> does not agree with \<open>GameSession.hand_value\<close> on every hand: for
  the hand 10, A, A the first ace is taken as 11 (10 + 11 = 21) and the second then adds 1,
  so \<open>get_value\<close> gives 22, a bust, where \<open>hand_value\<close> gives 12, the best total of the
  hand. (With at most one ace the two agree: \<open>get_value_one_ace\<close>.)
\<close>

theorem get_value_ten_ace_ace:
  "get_value [Card Hearts Ten, Card Spades Ace, Card Clubs Ace] = 22
   \<and> hand_value [Card Hearts Ten, Card Spades Ace, Card Clubs Ace] = 12"
  by (simp add: get_value_def count_non_aces_def hand_value_def count_aces_def card_value_def
        adjust_aces.simps)

text \<open>
  C5. \<open>Hand.is_soft\<close> answers true for the hand 10, A, A, although the hand with both aces
  as 1, plus 10, is 22: the test \<open>value + 11 <= 21\<close> leaves the second ace out.
  \<open>GameSession.is_soft_hand\<close> answers false there, and is the stated condition on every hand
  (\<open>is_soft_hand_meets_spec\<close>).
\<close>

theorem is_soft_ten_ace_ace:
  "is_soft [Card Hearts Ten, Card Spades Ace, Card Clubs Ace]
   \<and> \<not> is_soft_hand [Card Hearts Ten, Card Spades Ace, Card Clubs Ace]
   \<and> count_aces [Card Hearts Ten, Card Spades Ace, Card Clubs Ace] = 2
   \<and> sum_list (map (\<lambda>c. if rank c = Ace then 1 else card_value c)
                [Card Hearts Ten, Card Spades Ace, Card Clubs Ace]) + 10 = 22"
  by (simp add: is_soft_def count_non_aces_def is_soft_hand_def count_aces_def card_value_def)

section \<open>Facts about the shoe\<close>

lemma length_shuffle_from: "length (shuffle_from rng i xs) = length xs"
  by (induction rng i xs rule: shuffle_from.induct) (simp_all add: Let_def)

lemma mset_shuffle_from: "i < length xs \<Longrightarrow> mset (shuffle_from rng i xs) = mset xs"
proof (induction rng i xs rule: shuffle_from.induct)
  case (1 rng xs)
  then show ?case by simp
next
  case (2 rng i xs)
  define j where "j = rng (Suc i) mod (Suc i + 1)"
  have "j < Suc i + 1" unfolding j_def by (rule mod_less_divisor) simp
  with 2(2) have j: "j < length xs" by simp
  have sw: "mset (xs[Suc i := xs ! j, j := xs ! Suc i]) = mset xs"
    using mset_swap[OF j 2(2)] by simp
  have len: "i < length (xs[Suc i := xs ! j, j := xs ! Suc i])" using 2(2) by simp
  have "mset (shuffle_from rng i (xs[Suc i := xs ! j, j := xs ! Suc i])) = mset xs"
    using 2(1)[OF j_def len] sw by simp
  then show ?case by (simp add: Let_def j_def)
qed

lemma mset_random_shuffle: "mset (random_shuffle rng xs) = mset xs"
  by (cases xs) (simp_all add: random_shuffle_def mset_shuffle_from)

lemma shuffle_cards_left: "cards_left (shuffle rng d) = cards_left d"
  by (simp add: shuffle_def cards_left_def random_shuffle_def length_shuffle_from)

lemma shuffle_keeps_cards: "mset (cards (shuffle rng d)) = mset (cards d)"
  by (simp add: shuffle_def mset_random_shuffle)

lemma shuffle_running_count: "running_count (shuffle rng d) = 0"
  by (simp add: shuffle_def)

lemma shuffle_other_fields:
  "number_of_decks (shuffle rng d) = number_of_decks d
   \<and> initial_cards (shuffle rng d) = initial_cards d
   \<and> cut_card_position (shuffle rng d) = cut_card_position d"
  by (simp add: shuffle_def)

lemma cards_left_deal_card: "cards_left (snd (deal_card f d)) = cards_left d - 1"
  by (simp add: deal_card_def cards_left_def split: list.splits)

lemma deal_card_other_fields:
  "number_of_decks (snd (deal_card f d)) = number_of_decks d
   \<and> initial_cards (snd (deal_card f d)) = initial_cards d
   \<and> cut_card_position (snd (deal_card f d)) = cut_card_position d"
  by (simp add: deal_card_def split: list.splits)

lemma cards_left_deal_many: "cards_left (deal_many n d) = cards_left d - n"
  by (induction n arbitrary: d) (simp_all add: cards_left_deal_card)

lemma deal_many_other_fields:
  "number_of_decks (deal_many n d) = number_of_decks d
   \<and> initial_cards (deal_many n d) = initial_cards d
   \<and> cut_card_position (deal_many n d) = cut_card_position d"
  by (induction n arbitrary: d) (simp_all add: deal_card_other_fields)

lemma Deck_init_one: "Deck_init 1 8 (Some 1) (3 / 4) = Inr one_deck_shoe"
  by (simp add: Deck_init_def build_deck_def Let_def py_int_def suits_def ranks_def
        one_deck_shoe_def)

lemma cards_left_one_deck_shoe: "cards_left one_deck_shoe = 52"
  by (simp add: one_deck_shoe_def cards_left_def suits_def ranks_def)

lemma cards_empty_shoe: "cards empty_shoe = []"
proof -
  have "cards_left empty_shoe = 0"
    by (simp add: empty_shoe_def cards_left_deal_many shuffle_cards_left
          cards_left_one_deck_shoe)
  then show ?thesis by (simp add: cards_left_def)
qed

text \<open>
  C3. \<open>Deck.shuffle\<close> permutes the cards that are left and sets the running count to 0; it
  does not put the dealt cards back. On the one-deck shoe with 39 cards dealt, where the
  cut card is reached and \<open>GameSession.play\<close> calls \<open>shuffle\<close>, 13 cards are left after the
  call, not 52, and the cut card is still reached. (On every shoe: \<open>shuffle_cards_left\<close>,
  \<open>shuffle_keeps_cards\<close>, \<open>shuffle_running_count\<close>.)
\<close>

theorem shuffle_at_cut_card_keeps_13:
  "Deck_init 1 8 (Some 1) (3 / 4) = Inr one_deck_shoe
   \<and> is_cut_card depleted_shoe
   \<and> cards_left (shuffle (\<lambda>i. 0) depleted_shoe) = 13
   \<and> number_of_decks (shuffle (\<lambda>i. 0) depleted_shoe) * 52 = 52
   \<and> running_count (shuffle (\<lambda>i. 0) depleted_shoe) = 0
   \<and> is_cut_card (shuffle (\<lambda>i. 0) depleted_shoe)"
proof -
  have left: "cards_left depleted_shoe = 13"
    by (simp add: depleted_shoe_def cards_left_deal_many shuffle_cards_left
          cards_left_one_deck_shoe)
  have cut: "cut_card_position depleted_shoe = 13"
    by (simp add: depleted_shoe_def deal_many_other_fields shuffle_other_fields
          one_deck_shoe_def)
  have decks: "number_of_decks depleted_shoe = 1"
    by (simp add: depleted_shoe_def deal_many_other_fields shuffle_other_fields
          one_deck_shoe_def)
  show ?thesis
    by (simp add: Deck_init_one is_cut_card_def left cut decks shuffle_cards_left
          shuffle_other_fields shuffle_running_count)
qed

text \<open>
  C4, as the code has it. Dealing from a shoe with no cards left returns \<open>None\<close> to the
  caller and leaves the shoe as it is; no exception is raised. Dealing from a shoe that
  has cards removes the front card and returns it, and adds its count value to the running
  count when the card is dealt face up.
\<close>

theorem deal_card_returns:
  "(cards d = [] \<longrightarrow> deal_card face_up d = (Inr None, d))
   \<and> (cards d = c # rest \<longrightarrow>
        fst (deal_card face_up d) = Inr (Some c)
        \<and> cards (snd (deal_card face_up d)) = rest
        \<and> running_count (snd (deal_card face_up d))
            = (if face_up then running_count d + get_count_value c else running_count d))"
  by (simp add: deal_card_def)

theorem deal_card_returns_witness:
  "cards empty_shoe = []
   \<and> deal_card True empty_shoe = (Inr None, empty_shoe)
   \<and> fst (deal_card True \<lparr>cards = [Card Hearts Five, Card Spades King], number_of_decks = 1,
             running_count = 0, initial_cards = 52, cut_card_position = 13\<rparr>)
       = Inr (Some (Card Hearts Five))
   \<and> cards (snd (deal_card True \<lparr>cards = [Card Hearts Five, Card Spades King],
             number_of_decks = 1, running_count = 0, initial_cards = 52,
             cut_card_position = 13\<rparr>)) = [Card Spades King]
   \<and> running_count (snd (deal_card True \<lparr>cards = [Card Hearts Five, Card Spades King],
             number_of_decks = 1, running_count = 0, initial_cards = 52,
             cut_card_position = 13\<rparr>)) = 1"
  using deal_card_returns [where d = empty_shoe and face_up = True]
    deal_card_returns [where d = "\<lparr>cards = [Card Hearts Five, Card Spades King],
             number_of_decks = 1, running_count = 0, initial_cards = 52,
             cut_card_position = 13\<rparr>"
          and c = "Card Hearts Five" and rest = "[Card Spades King]" and face_up = True]
    cards_empty_shoe
  by (simp add: get_count_value_def)

text \<open>
  C4 as stated fails on the shoe with all 52 cards dealt: the call returns the value
  \<open>None\<close>, which is not an error.
\<close>

theorem deal_card_empty_no_error:
  "cards_left empty_shoe = 0
   \<and> fst (deal_card True empty_shoe) = Inr None
   \<and> \<not> isl (fst (deal_card True empty_shoe))
   \<and> snd (deal_card True empty_shoe) = empty_shoe"
  by (simp add: deal_card_def cards_empty_shoe cards_left_def)

section \<open>Facts about the house edge and the deck count\<close>

lemma house_edge_no_overrides: "calculate_house_edge Map.empty = Inr (58 / 100)"
  by (simp add: calculate_house_edge_def adjust_for_decks_def edge_decks_def dict_get_def
        py_eq_num_def py_gt_num_def py_lt_num_def and_then_def adjust_for_payout_def
        adjust_for_dealer_def adjust_for_player_options_def adjust_for_penetration_def
        adjust_for_other_rules_def Let_def)

text \<open>
  C2, as the code has it. With no rule key overridden the edge is 0.58: the base 0.5 plus
  0.08, because \<open>resplit_aces\<close> defaults to \<open>False\<close> and "not allowed" adds 0.08. With only
  the payout changed to "6:5" it is 1.98, with only the deck count changed to 1 it is 0.33.
  When \<open>resplit_aces\<close> is set to \<open>True\<close> as well, no factor applies and the three values
  are 0.5, 1.9 and 0.25. (Decimal constants as exact fractions.)
\<close>

theorem house_edge_defaults:
  "calculate_house_edge Map.empty = Inr (58 / 100)
   \<and> calculate_house_edge [''blackjack_payout'' \<mapsto> StrV ''6:5''] = Inr (198 / 100)
   \<and> calculate_house_edge [''number_of_decks'' \<mapsto> IntV 1] = Inr (33 / 100)
   \<and> calculate_house_edge [''resplit_aces'' \<mapsto> BoolV True] = Inr (5 / 10)
   \<and> calculate_house_edge [''resplit_aces'' \<mapsto> BoolV True,
        ''blackjack_payout'' \<mapsto> StrV ''6:5''] = Inr (19 / 10)
   \<and> calculate_house_edge [''resplit_aces'' \<mapsto> BoolV True,
        ''number_of_decks'' \<mapsto> IntV 1] = Inr (25 / 100)"
  by (simp add: calculate_house_edge_def adjust_for_decks_def edge_decks_def dict_get_def
        py_eq_num_def py_gt_num_def py_lt_num_def and_then_def adjust_for_payout_def
        adjust_for_dealer_def adjust_for_player_options_def adjust_for_penetration_def
        adjust_for_other_rules_def Let_def)

text \<open>C2 as stated fails: the edge of the empty rule mapping is not 0.5.\<close>

theorem house_edge_default_not_half: "calculate_house_edge Map.empty \<noteq> Inr (5 / 10)"
  by (simp add: house_edge_no_overrides)

lemma decks_agree_when_given:
  "rules ''number_of_decks'' = Some v \<Longrightarrow> session_number_of_decks gs rules = edge_decks rules"
  by (simp add: session_number_of_decks_def edge_decks_def dict_get_def)

lemma decks_default_differs:
  "rules ''number_of_decks'' = None \<Longrightarrow>
   session_number_of_decks DEFAULT_GAME_SETTINGS rules = IntV 8 \<and> edge_decks rules = IntV 6"
  by (simp add: session_number_of_decks_def DEFAULT_GAME_SETTINGS_def edge_decks_def
        dict_get_def)

text \<open>
  C8. For the empty rule mapping under the default settings the session builds its shoe
  from 8 decks (the fallback is \<open>GAME_SETTINGS['MAX_DECKS']\<close>), while the house-edge
  estimate assumes 6. When the key is present the two agree (\<open>decks_agree_when_given\<close>).
\<close>

theorem deck_default_mismatch:
  "session_number_of_decks DEFAULT_GAME_SETTINGS Map.empty = IntV 8
   \<and> edge_decks Map.empty = IntV 6"
  by (simp add: session_number_of_decks_def DEFAULT_GAME_SETTINGS_def edge_decks_def
        dict_get_def)

section \<open>Facts about the round\<close>

lemma blackjack_pays:
  assumes "check_blackjack [p1, p2]" and "\<not> check_blackjack [d1, d2]"
  shows "fst (blackjack_check s bet p1 p2 d1 d2) = RoundOver
    \<and> bankroll (snd (blackjack_check s bet p1 p2 d1 d2))
       = bankroll s + of_int bet
         + (if blackjack_payout s = StrV ''3:2'' then 3 / 2 else 6 / 5) * of_int bet"
  using assms by (simp add: blackjack_check_def Let_def flip_card_def)

text \<open>
  C6. At a table whose rules give "1:1" as blackjack payout, a player blackjack (A, K)
  against a dealer 9, 7 on a bet of 10 ends the round and raises the bankroll from 90 to
  112: the stake plus 1.2 times the bet, not the stake plus 1.0 times the bet (110). The
  payout is 1.5 times the bet for "3:2" and 1.2 times the bet for every other value
  (\<open>blackjack_pays\<close>).
\<close>

theorem blackjack_even_money_pays_six_to_five:
  "check_blackjack [Card Spades Ace, Card Spades King]
   \<and> \<not> check_blackjack [Card Hearts Nine, Card Diamonds Seven]
   \<and> blackjack_payout session_even_money = StrV ''1:1''
   \<and> bankroll session_even_money = 90
   \<and> fst (blackjack_check session_even_money 10 (Card Spades Ace) (Card Spades King)
            (Card Hearts Nine) (Card Diamonds Seven)) = RoundOver
   \<and> bankroll (snd (blackjack_check session_even_money 10 (Card Spades Ace) (Card Spades King)
            (Card Hearts Nine) (Card Diamonds Seven))) = 112"
  by (simp add: blackjack_check_def check_blackjack_def hand_value_def count_aces_def
        card_value_def adjust_aces.simps Let_def flip_card_def session_even_money_def
        session_100_def)

lemma get_bet_taken:
  "get_bet s inputs = Some (Some bet, s') \<Longrightarrow>
     s' = s\<lparr>bankroll := bankroll s - of_int bet\<rparr>
     \<and> min_bet s \<le> bet \<and> bet \<le> max_bet s \<and> of_int bet \<le> bankroll s"
  by (induction s inputs rule: get_bet.induct) (auto split: if_splits)

text \<open>
  C7, as the code has it. \<open>s0\<close> is the session before the bet, \<open>s1\<close> the session after
  \<open>get_bet\<close> has accepted \<open>bet\<close> and taken it from the bankroll. With a player total of 20
  against a dealer total of 19 the player wins: the bankroll rises by twice the bet over
  the balance after the bet, which is once the bet over the balance before the bet. With
  20 against 20 the round is a push and the bankroll is back at the balance before the bet.
\<close>

theorem settlement_bankroll:
  assumes "get_bet s0 inputs = Some (Some bet, s1)"
  shows "(hand_value player_hand = 20 \<and> hand_value dealer_hand = 19 \<longrightarrow>
            bankroll (compare_hands s1 player_hand dealer_hand bet) = bankroll s1 + 2 * of_int bet
          \<and> bankroll (compare_hands s1 player_hand dealer_hand bet) = bankroll s0 + of_int bet
          \<and> hands_won (stats (compare_hands s1 player_hand dealer_hand bet))
              = hands_won (stats s0) + 1)
       \<and> (hand_value player_hand = 20 \<and> hand_value dealer_hand = 20 \<longrightarrow>
            bankroll (compare_hands s1 player_hand dealer_hand bet) = bankroll s0
          \<and> pushes (stats (compare_hands s1 player_hand dealer_hand bet))
              = pushes (stats s0) + 1)"
  using get_bet_taken [OF assms] by (simp add: compare_hands_def Let_def)

theorem settlement_bankroll_witness:
  "get_bet session_100 [Garbage, Number 10] = Some (Some 10, session_100\<lparr>bankroll := 90\<rparr>)
   \<and> hand_value [Card Spades King, Card Hearts Queen] = 20
   \<and> hand_value [Card Diamonds Ten, Card Clubs Nine] = 19
   \<and> hand_value [Card Diamonds Ten, Card Clubs Jack] = 20
   \<and> bankroll (compare_hands (session_100\<lparr>bankroll := 90\<rparr>)
        [Card Spades King, Card Hearts Queen] [Card Diamonds Ten, Card Clubs Nine] 10) = 110
   \<and> bankroll (compare_hands (session_100\<lparr>bankroll := 90\<rparr>)
        [Card Spades King, Card Hearts Queen] [Card Diamonds Ten, Card Clubs Jack] 10) = 100"
proof -
  have bet: "get_bet session_100 [Garbage, Number 10]
      = Some (Some 10, session_100\<lparr>bankroll := 90\<rparr>)"
    by (simp add: session_100_def)
  have p: "hand_value [Card Spades King, Card Hearts Queen] = 20"
    by (simp add: hand_value_def count_aces_def card_value_def adjust_aces.simps)
  have d19: "hand_value [Card Diamonds Ten, Card Clubs Nine] = 19"
    by (simp add: hand_value_def count_aces_def card_value_def adjust_aces.simps)
  have d20: "hand_value [Card Diamonds Ten, Card Clubs Jack] = 20"
    by (simp add: hand_value_def count_aces_def card_value_def adjust_aces.simps)
  have b: "bankroll session_100 = 100" by (simp add: session_100_def)
  show ?thesis
    using settlement_bankroll [OF bet, of "[Card Spades King, Card Hearts Queen]"
        "[Card Diamonds Ten, Card Clubs Nine]"]
      settlement_bankroll [OF bet, of "[Card Spades King, Card Hearts Queen]"
        "[Card Diamonds Ten, Card Clubs Jack]"]
      bet p d19 d20 b
    by simp
qed

text \<open>
  C7 as stated fails: with a bankroll of 100 and a bet of 10, a win with 20 against 19
  leaves 110, not 100 plus twice the bet.
\<close>

theorem settlement_win_is_one_bet:
  "get_bet session_100 [Number 10] = Some (Some 10, session_100\<lparr>bankroll := 90\<rparr>)
   \<and> hand_value [Card Spades King, Card Hearts Queen] = 20
   \<and> hand_value [Card Diamonds Ten, Card Clubs Nine] = 19
   \<and> bankroll (compare_hands (session_100\<lparr>bankroll := 90\<rparr>)
        [Card Spades King, Card Hearts Queen] [Card Diamonds Ten, Card Clubs Nine] 10) = 110
   \<and> bankroll (compare_hands (session_100\<lparr>bankroll := 90\<rparr>)
        [Card Spades King, Card Hearts Queen] [Card Diamonds Ten, Card Clubs Nine] 10)
       \<noteq> bankroll session_100 + 2 * 10"
  by (simp add: session_100_def compare_hands_def hand_value_def count_aces_def
        card_value_def adjust_aces.simps Let_def)

section \<open>Facts about the advisor\<close>

lemma advisor_by_hand_kind:
  "get_basic_strategy_move h up =
     (case (if is_pair h then pairs_strategy (rank (h ! 0)) (card_value up) (length h) else None) of
        Some move \<Rightarrow> move
      | None \<Rightarrow>
          if is_soft_hand h then soft_strategy (hand_value h) (card_value up) (length h)
          else hard_strategy (hand_value h) (card_value up) (length h))"
proof -
  define aces where "aces = snd (adjust_aces (sum_list (map card_value h)) (count_aces h))"
  have eq: "adjust_aces (sum_list (map card_value h)) (count_aces h) = (hand_value h, aces)"
    by (simp add: hand_value_def aces_def)
  have soft: "(aces > 0 \<and> hand_value h \<le> 21) = is_soft_hand h"
    using advisor_soft_is_soft_hand [of h] by (simp add: aces_def hand_value_def)
  show ?thesis
    by (simp add: get_basic_strategy_move_def eq soft is_pair_def Let_def
          cong: option.case_cong)
qed

lemma two_cards: "length h = 2 \<Longrightarrow> \<exists>a b. h = [a, b]"
  by (auto simp: numeral_2_eq_2 length_Suc_conv)

lemma adjust_aces_two_aces: "adjust_aces 22 (Suc (Suc 0)) = (12, Suc 0)"
  by (simp add: adjust_aces.simps)

lemma pair_values:
  assumes "is_pair h"
  shows "hand_value h \<noteq> 11 \<and> (is_soft_hand h \<longrightarrow> hand_value h = 12)"
proof -
  from assms obtain a b where h: "h = [a, b]" and r: "rank b = rank a"
    using two_cards [of h] by (auto simp: is_pair_def)
  show ?thesis
    by (cases "rank a")
       (simp_all add: h r hand_value_def is_soft_hand_def count_aces_def card_value_def
          adjust_aces_zero adjust_aces_two_aces Let_def)
qed

text \<open>
  C9, as the code has it. A hard 16 is a hand that \<open>hand_value\<close> puts at 16 and
  \<open>is_soft_hand\<close> finds not soft, and likewise for the other totals. The advisor answers
  'hit' for every hard 16 that is not a pair against an upcard of value 10, and 'split'
  for the pair of eights, the one hard 16 that is a pair, against any upcard; 'double' for
  every two-card hard 11 against any upcard; 'split' for a pair of aces against any
  upcard; 'hit' for every soft 18 against a 9. The advisor is a function of the hand and
  the upcard: it changes neither, and equal arguments give equal answers.
\<close>

theorem advisor_moves:
  "(hand_value h = 16 \<and> \<not> is_soft_hand h \<and> \<not> is_pair h \<and> card_value up = 10
      \<longrightarrow> get_basic_strategy_move h up = ''hit'')
   \<and> (is_pair h \<and> rank (h ! 0) = Eight \<longrightarrow> get_basic_strategy_move h up = ''split'')
   \<and> (length h = 2 \<and> hand_value h = 11 \<and> \<not> is_soft_hand h
      \<longrightarrow> get_basic_strategy_move h up = ''double'')
   \<and> (is_pair h \<and> rank (h ! 0) = Ace \<longrightarrow> get_basic_strategy_move h up = ''split'')
   \<and> (hand_value h = 18 \<and> is_soft_hand h \<and> card_value up = 9
      \<longrightarrow> get_basic_strategy_move h up = ''hit'')"
proof -
  have hard16: "get_basic_strategy_move h up = ''hit''"
    if "hand_value h = 16" "\<not> is_soft_hand h" "\<not> is_pair h" "card_value up = 10"
    using that by (simp add: advisor_by_hand_kind hard_strategy_def)
  have eights: "get_basic_strategy_move h up = ''split''" if "is_pair h" "rank (h ! 0) = Eight"
    using that by (simp add: advisor_by_hand_kind pairs_strategy_def)
  have aces: "get_basic_strategy_move h up = ''split''" if "is_pair h" "rank (h ! 0) = Ace"
    using that by (simp add: advisor_by_hand_kind pairs_strategy_def)
  have hard11: "get_basic_strategy_move h up = ''double''"
    if "length h = 2" "hand_value h = 11" "\<not> is_soft_hand h"
  proof -
    from that(2) have "\<not> is_pair h" using pair_values [of h] by auto
    with that show ?thesis by (simp add: advisor_by_hand_kind hard_strategy_def)
  qed
  have soft18: "get_basic_strategy_move h up = ''hit''"
    if "hand_value h = 18" "is_soft_hand h" "card_value up = 9"
  proof -
    from that(1,2) have "\<not> is_pair h" using pair_values [of h] by auto
    with that show ?thesis by (simp add: advisor_by_hand_kind soft_strategy_def)
  qed
  from hard16 eights aces hard11 soft18 show ?thesis by blast
qed

theorem advisor_moves_witness:
  "get_basic_strategy_move [Card Spades Ten, Card Hearts Six] (Card Clubs King) = ''hit''
   \<and> get_basic_strategy_move [Card Spades Ten, Card Hearts Five, Card Hearts Ace] (Card Clubs Ten) = ''hit''
   \<and> get_basic_strategy_move [Card Spades Eight, Card Hearts Eight] (Card Clubs King) = ''split''
   \<and> get_basic_strategy_move [Card Spades Five, Card Hearts Six] (Card Clubs Ace) = ''double''
   \<and> get_basic_strategy_move [Card Spades Ace, Card Hearts Ace] (Card Clubs Two) = ''split''
   \<and> get_basic_strategy_move [Card Spades Ace, Card Hearts Seven] (Card Clubs Nine) = ''hit''"
  using advisor_moves [of "[Card Spades Ten, Card Hearts Six]" "Card Clubs King"]
    advisor_moves [of "[Card Spades Ten, Card Hearts Five, Card Hearts Ace]" "Card Clubs Ten"]
    advisor_moves [of "[Card Spades Eight, Card Hearts Eight]" "Card Clubs King"]
    advisor_moves [of "[Card Spades Five, Card Hearts Six]" "Card Clubs Ace"]
    advisor_moves [of "[Card Spades Ace, Card Hearts Ace]" "Card Clubs Two"]
    advisor_moves [of "[Card Spades Ace, Card Hearts Seven]" "Card Clubs Nine"]
  by (simp add: hand_value_def is_soft_hand_def is_pair_def count_aces_def card_value_def
        adjust_aces.simps Let_def)

text \<open>
  C9 as stated fails on the pair of eights, a hard 16: against a king the answer is
  'split', not 'hit'.
\<close>

theorem advisor_pair_of_eights:
  "hand_value [Card Hearts Eight, Card Spades Eight] = 16
   \<and> \<not> is_soft_hand [Card Hearts Eight, Card Spades Eight]
   \<and> card_value (Card Clubs King) = 10
   \<and> get_basic_strategy_move [Card Hearts Eight, Card Spades Eight] (Card Clubs King) = ''split''
   \<and> get_basic_strategy_move [Card Hearts Eight, Card Spades Eight] (Card Clubs King) \<noteq> ''hit''"
  by (simp add: get_basic_strategy_move_def pairs_strategy_def hand_value_def is_soft_hand_def
        count_aces_def card_value_def adjust_aces.simps Let_def)

end
